theory Spec2Isabelle
  imports Complex_Main
begin

section \<open>Data model of main.go\<close>

text \<open>
  The global settings of \<^verbatim>\<open>type Config struct\<close>. The nested anonymous structs are
  flattened, the field names are kept.
\<close>

record Config =
  RequestsPerSecond :: int
  BurstLimit :: int
  ReadTimeout :: int
  WriteTimeout :: int
  IdleTimeout :: int
  MaxRequestSize :: int
  SSL_Enabled :: bool
  SSL_CertFile :: string
  SSL_KeyFile :: string
  Whitelist_IPs :: "string list"
  Blacklist_IPs :: "string list"

text \<open>
  The part of \<^verbatim>\<open>url.URL\<close> and of \<^verbatim>\<open>http.Request\<close> that main.go reads or writes.
  A request body is either the body as received or that body behind
  \<^verbatim>\<open>http.MaxBytesReader\<close> with its limit.
\<close>

record URL =
  Scheme :: string
  url_Host :: string
  Path :: string
  RawQuery :: string

datatype Body = Received string | MaxBytesReader Body int

record Request =
  RemoteAddr :: string
  Host :: string
  url :: URL
  Header :: "(string \<times> string list) list"
  body :: Body

text \<open>
  \<^verbatim>\<open>httputil.ReverseProxy\<close> as newReverseProxy builds it: the only field set is the
  Director, a closure over the pointer that \<^verbatim>\<open>url.Parse\<close> returned, which is nil when
  parsing failed (the error is discarded).
\<close>

record ReverseProxy =
  target :: "URL option"

text \<open>The closure \<^verbatim>\<open>func() { proxy.ServeHTTP(w, r) }\<close> sent on the worker pool.\<close>

record Task =
  task_proxy :: ReverseProxy
  task_request :: Request

text \<open>
  What a handler does with the response writer: \<^verbatim>\<open>http.Error(w, msg, code)\<close>, or the
  send of a task on the channel workerPool.
\<close>

datatype Response = http_Error string nat | Submit Task

definition StatusUnauthorized :: nat where "StatusUnauthorized = 401"
definition StatusForbidden :: nat where "StatusForbidden = 403"
definition StatusNotFound :: nat where "StatusNotFound = 404"
definition StatusTooManyRequests :: nat where "StatusTooManyRequests = 429"
definition StatusInternalServerError :: nat where "StatusInternalServerError = 500"

fun status :: "Response \<Rightarrow> nat option" where
  "status (http_Error msg code) = Some code"
| "status (Submit t) = None"

section \<open>Library functions the handlers call\<close>

text \<open>
  \<^verbatim>\<open>net.SplitHostPort\<close> of the Go standard library, which both IP-reading middlewares
  call on \<^verbatim>\<open>r.RemoteAddr\<close>. IndexByte and LastIndexByte are its index searches,
  \<open>None\<close> standing for -1.
\<close>

fun IndexByte :: "string \<Rightarrow> char \<Rightarrow> nat option" where
  "IndexByte [] c = None"
| "IndexByte (x # xs) c = (if x = c then Some 0 else map_option Suc (IndexByte xs c))"

fun LastIndexByte :: "string \<Rightarrow> char \<Rightarrow> nat option" where
  "LastIndexByte [] c = None"
| "LastIndexByte (x # xs) c =
     (case LastIndexByte xs c of
        Some i \<Rightarrow> Some (Suc i)
      | None \<Rightarrow> if x = c then Some 0 else None)"

datatype AddrError =
  missingPort | tooManyColons | missingBracket | unexpectedOpen | unexpectedClose

definition SplitHostPort_tail ::
  "string \<Rightarrow> nat \<Rightarrow> string \<Rightarrow> nat \<Rightarrow> nat \<Rightarrow> AddrError + (string \<times> string)" where
  "SplitHostPort_tail hostport i host j k =
     (if IndexByte (drop j hostport) CHR ''['' \<noteq> None then Inl unexpectedOpen
      else if IndexByte (drop k hostport) CHR '']'' \<noteq> None then Inl unexpectedClose
      else Inr (host, drop (i + 1) hostport))"

definition SplitHostPort :: "string \<Rightarrow> AddrError + (string \<times> string)" where
  "SplitHostPort hostport =
     (case LastIndexByte hostport CHR '':'' of
        None \<Rightarrow> Inl missingPort
      | Some i \<Rightarrow>
          if take 1 hostport = ''[''
          then (case IndexByte hostport CHR '']'' of
                  None \<Rightarrow> Inl missingBracket
                | Some e \<Rightarrow>
                    if e + 1 = length hostport then Inl missingPort
                    else if e + 1 = i
                    then SplitHostPort_tail hostport i (take (e - 1) (drop 1 hostport)) 1 (e + 1)
                    else if take 1 (drop (e + 1) hostport) = '':'' then Inl tooManyColons
                    else Inl missingPort)
          else (let host = take i hostport in
                if IndexByte host CHR '':'' \<noteq> None then Inl tooManyColons
                else SplitHostPort_tail hostport i host 0 0))"

section \<open>IP filtering\<close>

text \<open>
  The two loops of ipFilterMiddleware: the blacklist loop returns from the handler at the
  first equal entry, the whitelist loop sets \<^verbatim>\<open>allowed\<close> and breaks.
\<close>

fun blacklist_loop :: "string list \<Rightarrow> string \<Rightarrow> bool" where
  "blacklist_loop [] ip = False"
| "blacklist_loop (blockedIP # rest) ip = (if blockedIP = ip then True else blacklist_loop rest ip)"

fun whitelist_loop :: "string list \<Rightarrow> string \<Rightarrow> bool" where
  "whitelist_loop [] ip = False"
| "whitelist_loop (allowedIP # rest) ip = (if allowedIP = ip then True else whitelist_loop rest ip)"

section \<open>The rate limiter registry\<close>

text \<open>
  Modelled from the spec: the token bucket itself, \<^verbatim>\<open>rate.Limiter\<close> with
  \<^verbatim>\<open>rate.NewLimiter\<close> and \<^verbatim>\<open>Allow\<close>, is the package golang.org/x/time/rate, which is
  not among the sources. Section 3 and 4.1 of the specification give it: the state is
  capacity (the burst limit), refill rate (requests per second), current tokens and the
  instant of the last refill; a bucket starts full; it refills continuously, fractions
  of a token included, never beyond its capacity; allow consumes one token and answers
  false when less than one token is there, and a denied attempt consumes nothing.
  Instants are seconds; \<open>last_refill = None\<close> is a bucket that was never used.
\<close>

record Limiter =
  rate_limit :: real
  burst :: int
  tokens :: real
  last_refill :: "real option"

text \<open>
  Modelled from the spec: \<^verbatim>\<open>rate.NewLimiter(r, b)\<close>, absent from the sources. A client
  bucket starts full, with burst_limit tokens.
\<close>

definition NewLimiter :: "real \<Rightarrow> int \<Rightarrow> Limiter" where
  "NewLimiter r b = \<lparr>rate_limit = r, burst = b, tokens = real_of_int b, last_refill = None\<rparr>"

text \<open>
  Modelled from the spec: the tokens of a bucket at the instant \<open>now\<close>, absent from the
  sources. The bucket gains requests-per-second tokens for each second since its last
  refill, fractions included, up to its capacity.
\<close>

definition refill :: "Limiter \<Rightarrow> real \<Rightarrow> real" where
  "refill l now =
     (case last_refill l of
        None \<Rightarrow> tokens l
      | Some t \<Rightarrow> min (real_of_int (burst l)) (tokens l + rate_limit l * max 0 (now - t)))"

text \<open>
  Modelled from the spec: \<^verbatim>\<open>Limiter.Allow()\<close>, absent from the sources. It takes one
  token when a whole token is there, and leaves the bucket as it is when it denies.
\<close>

definition Allow :: "Limiter \<Rightarrow> real \<Rightarrow> bool \<times> Limiter" where
  "Allow l now =
     (let tok = refill l now in
      if 1 \<le> tok then (True, l\<lparr>tokens := tok - 1, last_refill := Some now\<rparr>) else (False, l))"

text \<open>
  The package-level variables of main.go. A \<^verbatim>\<open>*rate.Limiter\<close> is an address into the
  store \<open>limiters\<close>; the objects that NewLimiter allocates are numbered in the order of
  their allocation, \<open>allocated\<close> counting them.
\<close>

record State =
  config :: Config
  proxyMap :: "string \<rightharpoonup> ReverseProxy"
  rateLimiter :: "string \<rightharpoonup> nat"
  limiters :: "nat \<rightharpoonup> Limiter"
  allocated :: nat

text \<open>getRateLimiter, its body being one critical section of limiterLock.\<close>

definition getRateLimiter :: "string \<Rightarrow> State \<Rightarrow> nat \<times> State" where
  "getRateLimiter ip s =
     (case rateLimiter s ip of
        Some limiter \<Rightarrow> (limiter, s)
      | None \<Rightarrow>
          (let limiter = allocated s in
           (limiter,
            s\<lparr>limiters := (limiters s)(limiter \<mapsto>
                  NewLimiter (real_of_int (RequestsPerSecond (config s))) (BurstLimit (config s))),
              allocated := Suc (allocated s),
              rateLimiter := (rateLimiter s)(ip \<mapsto> limiter)\<rparr>)))"

text \<open>
  \<^verbatim>\<open>limiter.Allow()\<close> through the pointer, at the instant \<open>now\<close> that the call reads from
  the clock.
\<close>

definition limiter_Allow :: "nat \<Rightarrow> real \<Rightarrow> State \<Rightarrow> bool \<times> State" where
  "limiter_Allow limiter now s =
     (case limiters s limiter of
        None \<Rightarrow> (False, s)
      | Some l \<Rightarrow>
          (case Allow l now of
             (ok, l') \<Rightarrow> (ok, s\<lparr>limiters := (limiters s)(limiter \<mapsto> l')\<rparr>)))"

section \<open>The request pipeline\<close>

text \<open>
  A handler gets the request, the instant at which it runs and the package state, and
  gives what it does with the response and the state it leaves. A middleware takes the
  next handler, as in main.go.
\<close>

type_synonym Handler = "Request \<Rightarrow> real \<Rightarrow> State \<Rightarrow> Response \<times> State"

definition rateLimitMiddleware :: "Handler \<Rightarrow> Handler" where
  "rateLimitMiddleware next r now s =
     (case SplitHostPort (RemoteAddr r) of
        Inl err \<Rightarrow> (http_Error ''Internal Server Error'' StatusInternalServerError, s)
      | Inr (ip, port) \<Rightarrow>
          (case getRateLimiter ip s of
             (limiter, s1) \<Rightarrow>
               (case limiter_Allow limiter now s1 of
                  (ok, s2) \<Rightarrow>
                    if \<not> ok then (http_Error ''Too Many Requests'' StatusTooManyRequests, s2)
                    else next r now s2)))"

definition ipFilterMiddleware :: "Handler \<Rightarrow> Handler" where
  "ipFilterMiddleware next r now s =
     (case SplitHostPort (RemoteAddr r) of
        Inl err \<Rightarrow> (http_Error ''Internal Server Error'' StatusInternalServerError, s)
      | Inr (ip, port) \<Rightarrow>
          if blacklist_loop (Blacklist_IPs (config s)) ip
          then (http_Error ''Forbidden'' StatusForbidden, s)
          else if \<not> whitelist_loop (Whitelist_IPs (config s)) ip
          then (http_Error ''Unauthorized'' StatusUnauthorized, s)
          else next r now s)"

definition limitRequestSizeMiddleware :: "Handler \<Rightarrow> Handler" where
  "limitRequestSizeMiddleware next r now s =
     next (r\<lparr>body := MaxBytesReader (body r) (MaxRequestSize (config s))\<rparr>) now s"

definition proxyHandler :: Handler where
  "proxyHandler r now s =
     (case proxyMap s (Host r) of
        Some proxy \<Rightarrow> (Submit \<lparr>task_proxy = proxy, task_request = r\<rparr>, s)
      | None \<Rightarrow> (http_Error ''Domain not found'' StatusNotFound, s))"

text \<open>The \<^verbatim>\<open>Handler\<close> field of the server that main builds.\<close>

definition server_Handler :: Handler where
  "server_Handler =
     rateLimitMiddleware (ipFilterMiddleware (limitRequestSizeMiddleware proxyHandler))"

section \<open>Forwarding\<close>

text \<open>
  newReverseProxy, with \<^verbatim>\<open>url.Parse\<close> of the standard library as the parameter
  \<open>url_Parse\<close> (\<open>None\<close> is its error, with which it returns a nil pointer). The Director
  dereferences the pointer: on nil it panics, the \<open>None\<close> of the model.
\<close>

definition newReverseProxy :: "(string \<Rightarrow> URL option) \<Rightarrow> string \<Rightarrow> ReverseProxy" where
  "newReverseProxy url_Parse tgt = \<lparr>target = url_Parse tgt\<rparr>"

definition Director :: "ReverseProxy \<Rightarrow> Request \<Rightarrow> Request option" where
  "Director p req =
     (case target p of
        None \<Rightarrow> None
      | Some u \<Rightarrow> Some (req\<lparr>url := (url req)\<lparr>Scheme := Scheme u, url_Host := url_Host u\<rparr>\<rparr>))"

section \<open>Loading the settings and the domains\<close>

text \<open>
  The files are read through gopkg.in/ini.v1, which the specification leaves outside.
  A loaded file is what main.go observes of it: \<^verbatim>\<open>Section(s).Key(k).String()\<close>, which
  is the empty string for a key that is missing or empty, and the \<^verbatim>\<open>Must\<close> readers with
  their default. An error is its message.
\<close>

type_synonym error = string

record IniFile =
  KeyString :: "string \<Rightarrow> string \<Rightarrow> string"
  KeyMustInt :: "string \<Rightarrow> string \<Rightarrow> int \<Rightarrow> int"
  KeyMustInt64 :: "string \<Rightarrow> string \<Rightarrow> int \<Rightarrow> int"
  KeyMustBool :: "string \<Rightarrow> string \<Rightarrow> bool \<Rightarrow> bool"

text \<open>
  \<^verbatim>\<open>strings.Split(s, ",")\<close>: the separator of both calls is one byte. A string without the
  separator, the empty one included, gives the one-element list of itself.
\<close>

fun strings_Split :: "string \<Rightarrow> char \<Rightarrow> string list" where
  "strings_Split [] sep = [[]]"
| "strings_Split (c # cs) sep =
     (if c = sep then [] # strings_Split cs sep
      else (case strings_Split cs sep of
              [] \<Rightarrow> [[c]]
            | w # ws \<Rightarrow> (c # w) # ws))"

definition loadConfig ::
  "(string \<Rightarrow> error + IniFile) \<Rightarrow> string \<Rightarrow> State \<Rightarrow> error option \<times> State" where
  "loadConfig ini_Load filePath s =
     (case ini_Load filePath of
        Inl err \<Rightarrow> (Some err, s)
      | Inr cfg \<Rightarrow>
          (None,
           s\<lparr>config :=
               \<lparr>RequestsPerSecond = KeyMustInt cfg ''rate_limiting'' ''requests_per_second'' 1,
                BurstLimit = KeyMustInt cfg ''rate_limiting'' ''burst_limit'' 5,
                ReadTimeout = KeyMustInt cfg ''timeouts'' ''read_timeout'' 5,
                WriteTimeout = KeyMustInt cfg ''timeouts'' ''write_timeout'' 10,
                IdleTimeout = KeyMustInt cfg ''timeouts'' ''idle_timeout'' 30,
                MaxRequestSize = KeyMustInt64 cfg ''request_limits'' ''max_request_size'' 1048576,
                SSL_Enabled = KeyMustBool cfg ''ssl'' ''enabled'' True,
                SSL_CertFile = KeyString cfg ''ssl'' ''cert_file'',
                SSL_KeyFile = KeyString cfg ''ssl'' ''key_file'',
                Whitelist_IPs = strings_Split (KeyString cfg ''whitelist'' ''ips'') CHR '','',
                Blacklist_IPs = strings_Split (KeyString cfg ''blacklist'' ''ips'') CHR '',''\<rparr>\<rparr>))"

text \<open>
  \<^verbatim>\<open>filepath.Ext\<close> scans the name from its end for a dot, stopping at a path separator,
  and \<^verbatim>\<open>strings.TrimSuffix\<close> cuts a suffix that is there.
\<close>

fun Ext_scan :: "string \<Rightarrow> string \<Rightarrow> string" where
  "Ext_scan [] suffix = []"
| "Ext_scan (c # front) suffix =
     (if c = CHR ''/'' then []
      else if c = CHR ''.'' then c # suffix
      else Ext_scan front (c # suffix))"

definition filepath_Ext :: "string \<Rightarrow> string" where
  "filepath_Ext path = Ext_scan (rev path) []"

definition HasSuffix :: "string \<Rightarrow> string \<Rightarrow> bool" where
  "HasSuffix s suffix \<longleftrightarrow>
     length suffix \<le> length s \<and> drop (length s - length suffix) s = suffix"

definition TrimSuffix :: "string \<Rightarrow> string \<Rightarrow> string" where
  "TrimSuffix s suffix = (if HasSuffix s suffix then take (length s - length suffix) s else s)"

text \<open>
  An entry of the listing that \<^verbatim>\<open>ioutil.ReadDir\<close> returns: the name of the file, and what
  \<^verbatim>\<open>ini.Load\<close> gives for the path that \<^verbatim>\<open>filepath.Join\<close> makes of the directory and that
  name.
\<close>

record DirEntry =
  Name :: string
  Load :: "error + IniFile"

text \<open>The loop of loadDomains over the listing, on the map proxyMap.\<close>

fun loadDomains_loop ::
  "(string \<Rightarrow> URL option) \<Rightarrow> DirEntry list \<Rightarrow> (string \<rightharpoonup> ReverseProxy) \<Rightarrow>
   (string \<rightharpoonup> ReverseProxy)" where
  "loadDomains_loop url_Parse [] pm = pm"
| "loadDomains_loop url_Parse (file # files) pm =
     (if filepath_Ext (Name file) = ''.conf''
      then (let domain = TrimSuffix (Name file) (filepath_Ext (Name file)) in
            case Load file of
              Inl err \<Rightarrow> loadDomains_loop url_Parse files pm
            | Inr cfg \<Rightarrow>
                (let backendURL = KeyString cfg ''proxy'' ''backend_url'' in
                 loadDomains_loop url_Parse files
                   (pm(domain \<mapsto> newReverseProxy url_Parse backendURL))))
      else loadDomains_loop url_Parse files pm)"

definition loadDomains ::
  "(string \<Rightarrow> URL option) \<Rightarrow> (string \<Rightarrow> error + DirEntry list) \<Rightarrow> string \<Rightarrow> State \<Rightarrow>
   error option \<times> State" where
  "loadDomains url_Parse ReadDir directory s =
     (case ReadDir directory of
        Inl err \<Rightarrow> (Some err, s)
      | Inr files \<Rightarrow> (None, s\<lparr>proxyMap := loadDomains_loop url_Parse files (proxyMap s)\<rparr>))"

section \<open>The worker pool\<close>

text \<open>
  The channel workerPool with its buffer, and the goroutines that initWorkerPool
  starts: each is either waiting to receive (\<open>None\<close>) or inside \<^verbatim>\<open>task()\<close>.
\<close>

record Pool =
  capacity :: nat
  queue :: "Task list"
  workers :: "Task option list"

definition initWorkerPool :: "nat \<Rightarrow> Pool" where
  "initWorkerPool numWorkers =
     \<lparr>capacity = numWorkers, queue = [], workers = replicate numWorkers None\<rparr>"

text \<open>
  The steps of the pool: the send \<^verbatim>\<open>workerPool <- task\<close> of a handler, the receive of
  worker \<open>i\<close> in its \<^verbatim>\<open>range\<close> loop, and the return of its \<^verbatim>\<open>task()\<close>. A step that cannot
  happen in a state is \<open>None\<close>: the goroutine stays where it is. A send has no other
  outcome in Go: it completes or it waits.
\<close>

datatype Event = Send Task | Receive nat | Finish nat

fun step :: "Pool \<Rightarrow> Event \<Rightarrow> Pool option" where
  "step p (Send t) =
     (if length (queue p) < capacity p then Some (p\<lparr>queue := queue p @ [t]\<rparr>) else None)"
| "step p (Receive i) =
     (if i < length (workers p) \<and> workers p ! i = None
      then (case queue p of
              [] \<Rightarrow> None
            | t # q \<Rightarrow> Some (p\<lparr>queue := q, workers := (workers p)[i := Some t]\<rparr>))
      else None)"
| "step p (Finish i) =
     (if i < length (workers p) \<and> workers p ! i \<noteq> None
      then Some (p\<lparr>workers := (workers p)[i := None]\<rparr>)
      else None)"

fun run :: "Pool \<Rightarrow> Event list \<Rightarrow> Pool option" where
  "run p [] = Some p"
| "run p (e # es) = (case step p e of None \<Rightarrow> None | Some p' \<Rightarrow> run p' es)"

text \<open>The tasks that are being executed in a state of the pool.\<close>

definition executing :: "Pool \<Rightarrow> nat" where
  "executing p = length (filter (\<lambda>w. w \<noteq> None) (workers p))"

section \<open>Concrete settings and requests\<close>

text \<open>
  The settings of the system.conf that the repository ships, the state of the package
  variables before any request, and a GET request for \<^verbatim>\<open>/a/b?x=1\<close>.
\<close>

definition system_conf :: Config where
  "system_conf =
     \<lparr>RequestsPerSecond = 1, BurstLimit = 5, ReadTimeout = 5, WriteTimeout = 10,
      IdleTimeout = 30, MaxRequestSize = 1048576, SSL_Enabled = False,
      SSL_CertFile = ''server.crt'', SSL_KeyFile = ''server.key'',
      Whitelist_IPs = [''192.168.1.1'', ''10.0.0.1''],
      Blacklist_IPs = [''203.0.113.10'']\<rparr>"

definition start_State :: "Config \<Rightarrow> State" where
  "start_State c =
     \<lparr>config = c, proxyMap = Map.empty, rateLimiter = Map.empty, limiters = Map.empty,
      allocated = 0\<rparr>"

definition get_request :: "string \<Rightarrow> string \<Rightarrow> Request" where
  "get_request addr h =
     \<lparr>RemoteAddr = addr, Host = h,
      url = \<lparr>Scheme = [], url_Host = [], Path = ''/a/b'', RawQuery = ''x=1''\<rparr>,
      Header = [(''Accept'', [''*/*''])], body = Received []\<rparr>"

text \<open>One call of getRateLimiter after the other, for a list of client addresses.\<close>

fun acquire_all :: "string list \<Rightarrow> State \<Rightarrow> State" where
  "acquire_all [] s = s"
| "acquire_all (ip # ips) s = acquire_all ips (snd (getRateLimiter ip s))"

text \<open>
  The value of \<^verbatim>\<open>url.Parse\<close> at the backend URLs of the examples below:
  \<^verbatim>\<open>http://127.0.0.1:9000\<close> parses, and \<^verbatim>\<open>://bad\<close> is refused (missing protocol
  scheme). No other string is parsed in an example.
\<close>

definition example_url_Parse :: "string \<Rightarrow> URL option" where
  "example_url_Parse t =
     (if t = ''http://127.0.0.1:9000''
      then Some \<lparr>Scheme = ''http'', url_Host = ''127.0.0.1:9000'', Path = [], RawQuery = []\<rparr>
      else None)"

text \<open>
  A state in which the client 203.0.113.10 has used up its bucket at instant 0.
\<close>

definition exhausted_State :: State where
  "exhausted_State =
     (start_State system_conf)
       \<lparr>rateLimiter := [''203.0.113.10'' \<mapsto> 0],
        limiters := [0 \<mapsto> \<lparr>rate_limit = 1, burst = 5, tokens = 0, last_refill = Some 0\<rparr>],
        allocated := 1\<rparr>"

text \<open>
  The same request handled \<open>n\<close> times in a row at one instant: the responses in order,
  and the state after the last.
\<close>

fun requests :: "Handler \<Rightarrow> nat \<Rightarrow> Request \<Rightarrow> real \<Rightarrow> State \<Rightarrow> Response list \<times> State" where
  "requests h 0 r now s = ([], s)"
| "requests h (Suc n) r now s =
     (case h r now s of
        (resp, s1) \<Rightarrow> (case requests h n r now s1 of (resps, s2) \<Rightarrow> (resp # resps, s2)))"

text \<open>The handler that rateLimitMiddleware wraps in main.\<close>

definition after_rate_limit :: Handler where
  "after_rate_limit = ipFilterMiddleware (limitRequestSizeMiddleware proxyHandler)"

text \<open>
  A bucket that holds no more than its capacity and was last refilled at the instant
  \<open>now\<close>, if ever.
\<close>

definition at_instant :: "Limiter \<Rightarrow> real \<Rightarrow> bool" where
  "at_instant l now \<longleftrightarrow> (last_refill l = None \<or> last_refill l = Some now) \<and>
     tokens l \<le> real_of_int (burst l)"

text \<open>
  A loaded file that holds the given string keys and no other key: the reader of a
  missing key gives the empty string, and the \<^verbatim>\<open>Must\<close> readers give their default.
\<close>

definition ini_of :: "((string \<times> string) \<times> string) list \<Rightarrow> IniFile" where
  "ini_of kvs =
     \<lparr>KeyString = (\<lambda>section key. case map_of kvs (section, key) of None \<Rightarrow> [] | Some v \<Rightarrow> v),
      KeyMustInt = (\<lambda>section key d. d),
      KeyMustInt64 = (\<lambda>section key d. d),
      KeyMustBool = (\<lambda>section key d. d)\<rparr>"

text \<open>
  The state after loadConfig has read a settings file that has a blacklist and no
  whitelist key.
\<close>

definition no_whitelist_State :: State where
  "no_whitelist_State =
     snd (loadConfig (\<lambda>path. Inr (ini_of [((''blacklist'', ''ips''), ''203.0.113.10'')]))
            ''system.conf'' (start_State system_conf))"

text \<open>
  Listings of the domain directory: with the files of a.com and b.com, then with the
  file of a.com deleted, and with a file whose backend URL does not parse.
\<close>

definition listing_before :: "DirEntry list" where
  "listing_before =
     [\<lparr>Name = ''a.com.conf'', Load = Inr (ini_of [((''proxy'', ''backend_url''), ''http://127.0.0.1:9000'')])\<rparr>,
      \<lparr>Name = ''b.com.conf'', Load = Inr (ini_of [((''proxy'', ''backend_url''), ''http://127.0.0.1:9000'')])\<rparr>]"

definition listing_after :: "DirEntry list" where
  "listing_after =
     [\<lparr>Name = ''b.com.conf'', Load = Inr (ini_of [((''proxy'', ''backend_url''), ''http://127.0.0.1:9000'')])\<rparr>]"

definition listing_bad :: "DirEntry list" where
  "listing_bad =
     [\<lparr>Name = ''bad.com.conf'', Load = Inr (ini_of [((''proxy'', ''backend_url''), ''://bad'')])\<rparr>]"

text \<open>A task, as proxyHandler sends it.\<close>

definition example_Task :: Task where
  "example_Task =
     \<lparr>task_proxy = newReverseProxy example_url_Parse ''http://127.0.0.1:9000'',
      task_request = get_request ''192.168.1.1:40000'' ''example.com''\<rparr>"

section \<open>Properties of the IP filter\<close>

lemma blacklist_loop_iff: "blacklist_loop xs ip \<longleftrightarrow> ip \<in> set xs"
  by (induction xs) auto

lemma whitelist_loop_iff: "whitelist_loop xs ip \<longleftrightarrow> ip \<in> set xs"
  by (induction xs) auto

lemma SplitHostPort_blocked_client:
  "SplitHostPort ''203.0.113.10:51234'' = Inr (''203.0.113.10'', ''51234'')"
  by (simp add: SplitHostPort_def SplitHostPort_tail_def)

lemma SplitHostPort_unknown_client:
  "SplitHostPort ''198.51.100.7:40000'' = Inr (''198.51.100.7'', ''40000'')"
  by (simp add: SplitHostPort_def SplitHostPort_tail_def)

text \<open>
  C4. A request whose client IP is in the blacklist is answered 403 Forbidden by
  ipFilterMiddleware, whatever the next handler is and whatever the whitelist holds:
  the answer is the same for every whitelist put in place of the configured one, the
  client's own address included.
\<close>

theorem blacklist_denies_before_whitelist:
  assumes "SplitHostPort (RemoteAddr r) = Inr (ip, port)"
    and "ip \<in> set (Blacklist_IPs (config s))"
  shows "ipFilterMiddleware next r now s = (http_Error ''Forbidden'' StatusForbidden, s) \<and>
         fst (ipFilterMiddleware next r now (s\<lparr>config := (config s)\<lparr>Whitelist_IPs := wl\<rparr>\<rparr>)) =
           http_Error ''Forbidden'' StatusForbidden"
  using assms by (simp add: ipFilterMiddleware_def blacklist_loop_iff)

theorem blacklist_denies_before_whitelist_witness:
  "fst (ipFilterMiddleware proxyHandler (get_request ''203.0.113.10:51234'' ''example.com'') 0
          (start_State (system_conf\<lparr>Whitelist_IPs := [''203.0.113.10'']\<rparr>))) =
     http_Error ''Forbidden'' 403"
  using blacklist_denies_before_whitelist
    [of "get_request ''203.0.113.10:51234'' ''example.com''" "''203.0.113.10''" "''51234''"
        "start_State system_conf" proxyHandler 0 "[''203.0.113.10'']"]
  by (simp add: get_request_def start_State_def system_conf_def SplitHostPort_blocked_client
      StatusForbidden_def)

text \<open>
  C5. A request whose client IP is neither in the blacklist nor in the whitelist is
  answered 401 Unauthorized by ipFilterMiddleware, and the next handler is not run.
\<close>

theorem whitelist_default_deny:
  assumes "SplitHostPort (RemoteAddr r) = Inr (ip, port)"
    and "ip \<notin> set (Blacklist_IPs (config s))"
    and "ip \<notin> set (Whitelist_IPs (config s))"
  shows "ipFilterMiddleware next r now s = (http_Error ''Unauthorized'' StatusUnauthorized, s)"
  using assms by (simp add: ipFilterMiddleware_def blacklist_loop_iff whitelist_loop_iff)

theorem whitelist_default_deny_witness:
  "ipFilterMiddleware proxyHandler (get_request ''198.51.100.7:40000'' ''example.com'') 0
     (start_State system_conf) =
     (http_Error ''Unauthorized'' 401, start_State system_conf)"
  using whitelist_default_deny
    [of "get_request ''198.51.100.7:40000'' ''example.com''" "''198.51.100.7''" "''40000''"
        "start_State system_conf" proxyHandler 0]
  by (simp add: get_request_def start_State_def system_conf_def SplitHostPort_unknown_client
      StatusUnauthorized_def)

section \<open>Properties of the rate limiter registry\<close>

lemma getRateLimiter_dom:
  "dom (rateLimiter (snd (getRateLimiter ip s))) = insert ip (dom (rateLimiter s))"
  by (auto simp: getRateLimiter_def Let_def split: option.splits)

lemma getRateLimiter_allocated:
  "allocated (snd (getRateLimiter ip s)) =
     (if ip \<in> dom (rateLimiter s) then allocated s else Suc (allocated s))"
  by (auto simp: getRateLimiter_def Let_def split: option.splits)

lemma acquire_all_count:
  "finite (dom (rateLimiter s)) \<Longrightarrow> allocated s = card (dom (rateLimiter s)) \<Longrightarrow>
   dom (rateLimiter (acquire_all ips s)) = dom (rateLimiter s) \<union> set ips \<and>
   allocated (acquire_all ips s) = card (dom (rateLimiter s) \<union> set ips)"
proof (induction ips arbitrary: s)
  case Nil
  then show ?case by simp
next
  case (Cons ip ips)
  let ?s1 = "snd (getRateLimiter ip s)"
  have fin: "finite (dom (rateLimiter ?s1))"
    using Cons.prems(1) by (simp add: getRateLimiter_dom)
  have cnt: "allocated ?s1 = card (dom (rateLimiter ?s1))"
    using Cons.prems
    by (simp add: getRateLimiter_dom getRateLimiter_allocated card_insert_if del: domIff)
  from Cons.IH [OF fin cnt] show ?case
    by (simp add: getRateLimiter_dom Un_commute insert_commute)
qed

text \<open>
  C8. getRateLimiter returns the limiter of a client address and creates it on the
  first call for an address not seen before: the new limiter is a fresh object built
  from the configured rate and burst, and only the entry of that address is added to
  the map. A call for a known address returns the stored pointer and changes nothing,
  so a second call returns the same instance and leaves the state as the first left it.
  From the start state, any sequence of calls allocates exactly one limiter per
  distinct address.
\<close>

theorem getRateLimiter_once_per_client:
  "(case getRateLimiter ip s of
      (limiter, s1) \<Rightarrow>
        getRateLimiter ip s1 = (limiter, s1) \<and>
        rateLimiter s1 ip = Some limiter \<and>
        (\<forall>other. other \<noteq> ip \<longrightarrow> rateLimiter s1 other = rateLimiter s other) \<and>
        (\<forall>known. rateLimiter s ip = Some known \<longrightarrow> limiter = known \<and> s1 = s) \<and>
        (rateLimiter s ip = None \<longrightarrow>
           limiter = allocated s \<and> allocated s1 = Suc (allocated s) \<and>
           limiters s1 limiter =
             Some (NewLimiter (real_of_int (RequestsPerSecond (config s)))
                     (BurstLimit (config s))))) \<and>
   allocated (acquire_all ips (start_State c)) = card (set ips)"
proof -
  have "allocated (acquire_all ips (start_State c)) = card (set ips)"
    using acquire_all_count [of "start_State c" ips] by (simp add: start_State_def)
  then show ?thesis
    by (auto simp: getRateLimiter_def Let_def split: option.splits)
qed

theorem getRateLimiter_once_per_client_witness:
  "getRateLimiter ''10.0.0.1'' (snd (getRateLimiter ''10.0.0.1'' (start_State system_conf))) =
     (0, snd (getRateLimiter ''10.0.0.1'' (start_State system_conf))) \<and>
   fst (getRateLimiter ''10.0.0.1'' (start_State system_conf)) = 0 \<and>
   allocated
     (acquire_all [''10.0.0.1'', ''192.168.1.1'', ''10.0.0.1''] (start_State system_conf)) = 2"
  using getRateLimiter_once_per_client
    [of "''10.0.0.1''" "start_State system_conf"
        "[''10.0.0.1'', ''192.168.1.1'', ''10.0.0.1'']" system_conf]
  by (simp add: getRateLimiter_def start_State_def split: prod.splits option.splits)

section \<open>Properties of the pipeline\<close>

lemma getRateLimiter_config:
  "getRateLimiter ip s = (limiter, s1) \<Longrightarrow> config s1 = config s \<and> proxyMap s1 = proxyMap s"
  by (auto simp: getRateLimiter_def Let_def split: option.splits)

lemma limiter_Allow_config:
  "limiter_Allow limiter now s1 = (ok, s2) \<Longrightarrow>
   config s2 = config s1 \<and> proxyMap s2 = proxyMap s1"
  by (auto simp: limiter_Allow_def split: option.splits prod.splits)

text \<open>
  C6. The handler of the server runs rate limiting, then IP filtering, then the body
  cap, then dispatch. For a request whose remote address splits, with \<open>ok\<close> the answer
  of the client's limiter and \<open>s2\<close> the state the limiter leaves: a denial by the limiter
  is answered 429; otherwise a blacklisted address is answered 403; otherwise an
  address outside the whitelist is answered 401; otherwise proxyHandler runs on the
  request with its body behind MaxBytesReader. A stage that rejects does not run the
  next one: the result of rateLimitMiddleware on a denial, and of ipFilterMiddleware on
  a rejection, is the same for every next handler. In particular a rate-limited request
  from a blacklisted address is answered 429, not 403.
\<close>

theorem pipeline_order:
  assumes "SplitHostPort (RemoteAddr r) = Inr (ip, port)"
    and "getRateLimiter ip s = (limiter, s1)"
    and "limiter_Allow limiter now s1 = (ok, s2)"
  shows "server_Handler r now s =
           (if \<not> ok then (http_Error ''Too Many Requests'' StatusTooManyRequests, s2)
            else if ip \<in> set (Blacklist_IPs (config s))
            then (http_Error ''Forbidden'' StatusForbidden, s2)
            else if ip \<notin> set (Whitelist_IPs (config s))
            then (http_Error ''Unauthorized'' StatusUnauthorized, s2)
            else proxyHandler
                   (r\<lparr>body := MaxBytesReader (body r) (MaxRequestSize (config s))\<rparr>) now s2) \<and>
         (\<not> ok \<longrightarrow>
            rateLimitMiddleware next r now s =
              (http_Error ''Too Many Requests'' StatusTooManyRequests, s2)) \<and>
         (ok \<longrightarrow> rateLimitMiddleware next r now s = next r now s2) \<and>
         (ip \<in> set (Blacklist_IPs (config s)) \<or> ip \<notin> set (Whitelist_IPs (config s)) \<longrightarrow>
            ipFilterMiddleware next r now s2 = ipFilterMiddleware next' r now s2) \<and>
         (\<not> ok \<and> ip \<in> set (Blacklist_IPs (config s)) \<longrightarrow>
            fst (server_Handler r now s) =
              http_Error ''Too Many Requests'' StatusTooManyRequests)"
proof -
  have cfg: "config s2 = config s"
    using assms(2,3) getRateLimiter_config limiter_Allow_config by metis
  have rl: "rateLimitMiddleware nx r now s =
              (if \<not> ok then (http_Error ''Too Many Requests'' StatusTooManyRequests, s2)
               else nx r now s2)" for nx
    using assms by (simp add: rateLimitMiddleware_def)
  have ipf: "ipFilterMiddleware nx r now s2 =
               (if ip \<in> set (Blacklist_IPs (config s))
                then (http_Error ''Forbidden'' StatusForbidden, s2)
                else if ip \<notin> set (Whitelist_IPs (config s))
                then (http_Error ''Unauthorized'' StatusUnauthorized, s2)
                else nx r now s2)" for nx
    using assms(1)
    by (simp add: ipFilterMiddleware_def blacklist_loop_iff whitelist_loop_iff cfg)
  have cap: "limitRequestSizeMiddleware proxyHandler r now s2 =
               proxyHandler
                 (r\<lparr>body := MaxBytesReader (body r) (MaxRequestSize (config s))\<rparr>) now s2"
    by (simp add: limitRequestSizeMiddleware_def cfg)
  show ?thesis
    by (simp add: server_Handler_def rl ipf cap)
qed

theorem pipeline_order_witness:
  "fst (server_Handler (get_request ''203.0.113.10:51234'' ''example.com'') 0 exhausted_State) =
     http_Error ''Too Many Requests'' 429"
proof -
  let ?r = "get_request ''203.0.113.10:51234'' ''example.com''"
  have a: "SplitHostPort (RemoteAddr ?r) = Inr (''203.0.113.10'', ''51234'')"
    by (simp add: get_request_def SplitHostPort_blocked_client)
  have b: "getRateLimiter ''203.0.113.10'' exhausted_State = (0, exhausted_State)"
    by (simp add: getRateLimiter_def exhausted_State_def)
  have c: "limiter_Allow 0 0 exhausted_State = (False, exhausted_State)"
    by (simp add: limiter_Allow_def Allow_def refill_def exhausted_State_def start_State_def)
  from pipeline_order [OF a b c] show ?thesis
    by (simp add: StatusTooManyRequests_def)
qed

section \<open>Properties of the token bucket\<close>

lemma after_rate_limit_state: "snd (after_rate_limit r now s) = s"
  by (simp add: after_rate_limit_def ipFilterMiddleware_def limitRequestSizeMiddleware_def
      proxyHandler_def split: sum.splits option.splits prod.splits)

lemma after_rate_limit_resp:
  "config s' = config s \<Longrightarrow> proxyMap s' = proxyMap s \<Longrightarrow>
   fst (after_rate_limit r now s') = fst (after_rate_limit r now s)"
  by (simp add: after_rate_limit_def ipFilterMiddleware_def limitRequestSizeMiddleware_def
      proxyHandler_def split: sum.splits option.splits prod.splits)

lemma after_rate_limit_not_429:
  "status (fst (after_rate_limit r now s)) \<noteq> Some StatusTooManyRequests"
  by (simp add: after_rate_limit_def ipFilterMiddleware_def limitRequestSizeMiddleware_def
      proxyHandler_def StatusTooManyRequests_def StatusForbidden_def StatusUnauthorized_def
      StatusNotFound_def StatusInternalServerError_def
      split: sum.splits option.splits prod.splits)

lemma refill_at_instant: "at_instant l now \<Longrightarrow> refill l now = tokens l"
  by (auto simp: at_instant_def refill_def)

lemma Allow_at_instant:
  "at_instant l now \<Longrightarrow>
   Allow l now = (if 1 \<le> tokens l then (True, l\<lparr>tokens := tokens l - 1, last_refill := Some now\<rparr>)
                  else (False, l))"
  by (simp add: Allow_def refill_at_instant)

lemma server_Handler_known:
  assumes "SplitHostPort (RemoteAddr r) = Inr (ip, port)"
    and "rateLimiter s ip = Some p" and "limiters s p = Some l" and "at_instant l now"
  shows "server_Handler r now s =
     (if 1 \<le> tokens l
      then (fst (after_rate_limit r now s),
            s\<lparr>limiters := (limiters s)(p \<mapsto> l\<lparr>tokens := tokens l - 1, last_refill := Some now\<rparr>)\<rparr>)
      else (http_Error ''Too Many Requests'' StatusTooManyRequests, s))"
proof (cases "1 \<le> tokens l")
  case True
  let ?s2 = "s\<lparr>limiters := (limiters s)(p \<mapsto> l\<lparr>tokens := tokens l - 1, last_refill := Some now\<rparr>)\<rparr>"
  have "server_Handler r now s = after_rate_limit r now ?s2"
    using assms True
    by (simp add: server_Handler_def rateLimitMiddleware_def getRateLimiter_def
        limiter_Allow_def Allow_at_instant after_rate_limit_def)
  moreover have "fst (after_rate_limit r now ?s2) = fst (after_rate_limit r now s)"
    by (rule after_rate_limit_resp) simp_all
  moreover have "snd (after_rate_limit r now ?s2) = ?s2"
    by (rule after_rate_limit_state)
  ultimately show ?thesis using True by (simp add: prod_eq_iff)
next
  case False
  have "s\<lparr>limiters := (limiters s)(p \<mapsto> l)\<rparr> = s"
    using assms(3) by (simp add: map_upd_triv)
  then show ?thesis
    using assms False
    by (simp add: server_Handler_def rateLimitMiddleware_def getRateLimiter_def
        limiter_Allow_def Allow_at_instant)
qed

lemma burst_of_requests:
  assumes "SplitHostPort (RemoteAddr r) = Inr (ip, port)"
  shows "rateLimiter s ip = Some p \<Longrightarrow> limiters s p = Some l \<Longrightarrow> at_instant l now \<Longrightarrow>
    tokens l = real_of_int k \<Longrightarrow> n = nat k \<Longrightarrow>
    (case requests server_Handler n r now s of
       (resps, s') \<Rightarrow>
         resps = replicate n (fst (after_rate_limit r now s)) \<and>
         rateLimiter s' ip = Some p \<and>
         server_Handler r now s' = (http_Error ''Too Many Requests'' StatusTooManyRequests, s'))"
proof (induction n arbitrary: s l k)
  case 0
  then have "\<not> 1 \<le> tokens l" by simp
  with 0 assms show ?case
    by (simp add: server_Handler_known)
next
  case (Suc n)
  then have k: "1 \<le> k" by simp
  then have tok: "1 \<le> tokens l" using Suc.prems(4) by simp
  let ?l' = "l\<lparr>tokens := tokens l - 1, last_refill := Some now\<rparr>"
  let ?s1 = "s\<lparr>limiters := (limiters s)(p \<mapsto> ?l')\<rparr>"
  have h: "server_Handler r now s = (fst (after_rate_limit r now s), ?s1)"
    using server_Handler_known [OF assms Suc.prems(1,2,3)] tok by simp
  have a: "rateLimiter ?s1 ip = Some p" using Suc.prems(1) by simp
  have b: "limiters ?s1 p = Some ?l'" by simp
  have c: "at_instant ?l' now" using Suc.prems(3) by (simp add: at_instant_def)
  have d: "tokens ?l' = real_of_int (k - 1)" using Suc.prems(4) by simp
  have e: "n = nat (k - 1)" using Suc.prems(5) by simp
  have f: "fst (after_rate_limit r now ?s1) = fst (after_rate_limit r now s)"
    by (rule after_rate_limit_resp) simp_all
  from Suc.IH [OF a b c d e] h f show ?case
    by (simp split: prod.splits)
qed


lemma getRateLimiter_known: "rateLimiter s ip = Some p \<Longrightarrow> getRateLimiter ip s = (p, s)"
  by (simp add: getRateLimiter_def)

lemma rateLimitMiddleware_acquired:
  "rateLimitMiddleware next r now (snd (getRateLimiter ip s)) = rateLimitMiddleware next r now s"
  if "SplitHostPort (RemoteAddr r) = Inr (ip, port)"
  using that
  by (simp add: rateLimitMiddleware_def getRateLimiter_def Let_def split: option.splits)

lemma Allow_denied: "Allow l t = (False, l') \<Longrightarrow> l' = l"
  by (simp add: Allow_def Let_def split: if_splits)

lemma Allow_allowed:
  "Allow l t = (True, l') \<Longrightarrow> 1 \<le> refill l t \<and> tokens l' = refill l t - 1"
  by (auto simp: Allow_def Let_def split: if_splits)

lemma limiter_Allow_denied: "limiter_Allow p t s = (False, s') \<Longrightarrow> s' = s"
proof (cases "limiters s p")
  case None
  then show "limiter_Allow p t s = (False, s') \<Longrightarrow> s' = s"
    by (simp add: limiter_Allow_def)
next
  case (Some l)
  assume d: "limiter_Allow p t s = (False, s')"
  obtain ok l' where a: "Allow l t = (ok, l')" by (cases "Allow l t")
  with d Some have "ok = False" and s': "s' = s\<lparr>limiters := (limiters s)(p \<mapsto> l')\<rparr>"
    by (simp_all add: limiter_Allow_def)
  with a have "l' = l" by (simp add: Allow_denied)
  with s' Some show "s' = s" by (simp add: map_upd_triv)
qed

lemma server_Handler_denied:
  assumes "SplitHostPort (RemoteAddr r) = Inr (ip, port)"
  shows "server_Handler r t s0 = (http_Error ''Too Many Requests'' StatusTooManyRequests, s0') \<longleftrightarrow>
         \<not> fst (limiter_Allow (fst (getRateLimiter ip s0)) t (snd (getRateLimiter ip s0))) \<and>
         s0' = snd (getRateLimiter ip s0)"
proof -
  obtain p s1 where g: "getRateLimiter ip s0 = (p, s1)" by (cases "getRateLimiter ip s0")
  obtain ok s2 where a: "limiter_Allow p t s1 = (ok, s2)" by (cases "limiter_Allow p t s1")
  show ?thesis
  proof (cases ok)
    case True
    have "server_Handler r t s0 = after_rate_limit r t s2"
      using assms g a True
      by (simp add: server_Handler_def rateLimitMiddleware_def after_rate_limit_def)
    moreover have "fst (after_rate_limit r t s2) \<noteq>
        http_Error ''Too Many Requests'' StatusTooManyRequests"
      using after_rate_limit_not_429 [of r t s2] by auto
    ultimately show ?thesis using g a True by (auto simp: prod_eq_iff)
  next
    case False
    with a have "s2 = s1" by (simp add: limiter_Allow_denied)
    with assms g a False show ?thesis
      by (auto simp: server_Handler_def rateLimitMiddleware_def)
  qed
qed

lemma burst_then_denied:
  assumes "SplitHostPort (RemoteAddr r) = Inr (ip, port)"
    and "rateLimiter s ip = None"
  shows "(case getRateLimiter ip s of
            (limiter, s1) \<Rightarrow>
              map_option tokens (limiters s1 limiter) = Some (real_of_int (BurstLimit (config s)))) \<and>
         (case requests server_Handler (nat (BurstLimit (config s))) r now s of
            (resps, s') \<Rightarrow>
              resps = replicate (nat (BurstLimit (config s))) (fst (after_rate_limit r now s)) \<and>
              status (fst (after_rate_limit r now s)) \<noteq> Some StatusTooManyRequests \<and>
              server_Handler r now s' =
                (http_Error ''Too Many Requests'' StatusTooManyRequests, snd (getRateLimiter ip s')) \<and>
              server_Handler r now (snd (getRateLimiter ip s')) =
                (http_Error ''Too Many Requests'' StatusTooManyRequests, snd (getRateLimiter ip s')))"
proof -
  let ?n = "nat (BurstLimit (config s))"
  let ?new = "NewLimiter (real_of_int (RequestsPerSecond (config s))) (BurstLimit (config s))"
  let ?s1 = "snd (getRateLimiter ip s)"
  let ?p = "allocated s"
  have a: "rateLimiter ?s1 ip = Some ?p" and b: "limiters ?s1 ?p = Some ?new"
    and cfg: "config ?s1 = config s" "proxyMap ?s1 = proxyMap s"
    using assms(2) by (simp_all add: getRateLimiter_def Let_def)
  have c: "at_instant ?new now" by (simp add: at_instant_def NewLimiter_def)
  have d: "tokens ?new = real_of_int (BurstLimit (config s))" by (simp add: NewLimiter_def)
  have full: "(case getRateLimiter ip s of
            (limiter, s1) \<Rightarrow>
              map_option tokens (limiters s1 limiter) = Some (real_of_int (BurstLimit (config s))))"
    using assms(2) by (simp add: getRateLimiter_def Let_def NewLimiter_def)
  have resp: "fst (after_rate_limit r now ?s1) = fst (after_rate_limit r now s)"
    using cfg by (rule after_rate_limit_resp)
  have same: "server_Handler r now s = server_Handler r now ?s1"
    using rateLimitMiddleware_acquired [OF assms(1)] by (simp add: server_Handler_def)
  obtain resps s' where run1: "requests server_Handler ?n r now ?s1 = (resps, s')"
    by (cases "requests server_Handler ?n r now ?s1")
  from burst_of_requests [OF assms(1) a b c d refl] run1 resp
  have r1: "resps = replicate ?n (fst (after_rate_limit r now s))"
    and r2: "rateLimiter s' ip = Some ?p"
    and r3: "server_Handler r now s' = (http_Error ''Too Many Requests'' StatusTooManyRequests, s')"
    by simp_all
  have known: "snd (getRateLimiter ip s') = s'"
    using r2 by (simp add: getRateLimiter_known)
  show ?thesis
  proof (cases ?n)
    case 0
    with run1 have s': "s' = ?s1" by simp
    from 0 have "requests server_Handler ?n r now s = ([], s)" by simp
    with full r3 s' same after_rate_limit_not_429 show ?thesis
      by (simp add: 0)
  next
    case (Suc m)
    have "requests server_Handler ?n r now s = requests server_Handler ?n r now ?s1"
      using same by (simp add: Suc)
    with run1 full r1 r3 known after_rate_limit_not_429 show ?thesis
      by simp
  qed
qed

text \<open>
  C3. The limiter that getRateLimiter creates for a client not seen before holds
  burst_limit tokens. Of requests from that client handled at one instant, the first
  burst_limit all pass the rate limiter: each gets the response of the next stage, which
  is never 429. The request after them is answered 429, and it leaves the state as it
  found it but for the limiter that getRateLimiter created when there was none (the case
  of a burst limit of zero or less): the same request once more is answered 429 again
  and changes nothing. A denied attempt takes no token, at any instant and in any
  state: whenever the limiter of the client denies, the request is answered 429 and the
  state is the one getRateLimiter left; a denying \<^verbatim>\<open>Allow\<close> leaves the state, and the
  bucket, exactly as they were, the instant of the last refill included. An allowed
  attempt takes exactly one token of the refilled bucket.
\<close>

theorem bucket_starts_full:
  assumes "SplitHostPort (RemoteAddr r) = Inr (ip, port)"
    and "rateLimiter s ip = None"
  shows "(case getRateLimiter ip s of
            (limiter, s1) \<Rightarrow>
              map_option tokens (limiters s1 limiter) = Some (real_of_int (BurstLimit (config s)))) \<and>
         (case requests server_Handler (nat (BurstLimit (config s))) r now s of
            (resps, s') \<Rightarrow>
              resps = replicate (nat (BurstLimit (config s))) (fst (after_rate_limit r now s)) \<and>
              status (fst (after_rate_limit r now s)) \<noteq> Some StatusTooManyRequests \<and>
              server_Handler r now s' =
                (http_Error ''Too Many Requests'' StatusTooManyRequests, snd (getRateLimiter ip s')) \<and>
              server_Handler r now (snd (getRateLimiter ip s')) =
                (http_Error ''Too Many Requests'' StatusTooManyRequests, snd (getRateLimiter ip s'))) \<and>
         (\<forall>t s0.
            \<not> fst (limiter_Allow (fst (getRateLimiter ip s0)) t (snd (getRateLimiter ip s0))) \<longrightarrow>
            server_Handler r t s0 =
              (http_Error ''Too Many Requests'' StatusTooManyRequests, snd (getRateLimiter ip s0))) \<and>
         (\<forall>limiter t s0 s0'. limiter_Allow limiter t s0 = (False, s0') \<longrightarrow> s0' = s0) \<and>
         (\<forall>l t l'. Allow l t = (False, l') \<longrightarrow> l' = l) \<and>
         (\<forall>l t l'. Allow l t = (True, l') \<longrightarrow> 1 \<le> refill l t \<and> tokens l' = refill l t - 1)"
proof -
  note burst = burst_then_denied [OF assms, of now]
  have denied: "server_Handler r t s0 =
      (http_Error ''Too Many Requests'' StatusTooManyRequests, snd (getRateLimiter ip s0))"
    if "\<not> fst (limiter_Allow (fst (getRateLimiter ip s0)) t (snd (getRateLimiter ip s0)))"
    for t s0
    using server_Handler_denied [OF assms(1), of t s0 "snd (getRateLimiter ip s0)"] that
    by simp
  have frame: "(\<forall>limiter t s0 s0'. limiter_Allow limiter t s0 = (False, s0') \<longrightarrow> s0' = s0) \<and>
         (\<forall>l t l'. Allow l t = (False, l') \<longrightarrow> l' = l) \<and>
         (\<forall>l t l'. Allow l t = (True, l') \<longrightarrow> 1 \<le> refill l t \<and> tokens l' = refill l t - 1)"
    using limiter_Allow_denied Allow_denied Allow_allowed by blast
  from burst have b1: "(case getRateLimiter ip s of
            (limiter, s1) \<Rightarrow>
              map_option tokens (limiters s1 limiter) = Some (real_of_int (BurstLimit (config s))))"
    by (rule conjunct1)
  from burst have b2: "(case requests server_Handler (nat (BurstLimit (config s))) r now s of
            (resps, s') \<Rightarrow>
              resps = replicate (nat (BurstLimit (config s))) (fst (after_rate_limit r now s)) \<and>
              status (fst (after_rate_limit r now s)) \<noteq> Some StatusTooManyRequests \<and>
              server_Handler r now s' =
                (http_Error ''Too Many Requests'' StatusTooManyRequests, snd (getRateLimiter ip s')) \<and>
              server_Handler r now (snd (getRateLimiter ip s')) =
                (http_Error ''Too Many Requests'' StatusTooManyRequests, snd (getRateLimiter ip s')))"
    by (rule conjunct2)
  from denied have d: "\<forall>t s0.
            \<not> fst (limiter_Allow (fst (getRateLimiter ip s0)) t (snd (getRateLimiter ip s0))) \<longrightarrow>
            server_Handler r t s0 =
              (http_Error ''Too Many Requests'' StatusTooManyRequests, snd (getRateLimiter ip s0))"
    by blast
  show ?thesis
    by (rule conjI [OF b1 conjI [OF b2 conjI [OF d frame]]])
qed

lemma SplitHostPort_allowed_client:
  "SplitHostPort ''192.168.1.1:40000'' = Inr (''192.168.1.1'', ''40000'')"
  by (simp add: SplitHostPort_def SplitHostPort_tail_def)

theorem bucket_starts_full_witness:
  "fst (requests server_Handler 5 (get_request ''192.168.1.1:40000'' ''example.com'') 0
          (start_State system_conf)) =
     replicate 5 (http_Error ''Domain not found'' 404) \<and>
   fst (server_Handler (get_request ''192.168.1.1:40000'' ''example.com'') 0
          (snd (requests server_Handler 5 (get_request ''192.168.1.1:40000'' ''example.com'') 0
                  (start_State system_conf)))) =
     http_Error ''Too Many Requests'' 429 \<and>
   limiter_Allow 0 (1 / 2) exhausted_State = (False, exhausted_State) \<and>
   fst (limiter_Allow 0 1 exhausted_State) = True"
proof -
  let ?r = "get_request ''192.168.1.1:40000'' ''example.com''"
  have a: "SplitHostPort (RemoteAddr ?r) = Inr (''192.168.1.1'', ''40000'')"
    by (simp add: get_request_def SplitHostPort_allowed_client)
  have b: "rateLimiter (start_State system_conf) ''192.168.1.1'' = None"
    by (simp add: start_State_def)
  have c: "fst (after_rate_limit ?r 0 (start_State system_conf)) =
             http_Error ''Domain not found'' 404"
    using a
    by (simp add: after_rate_limit_def ipFilterMiddleware_def limitRequestSizeMiddleware_def
        proxyHandler_def start_State_def system_conf_def get_request_def StatusNotFound_def)
  have d: "nat (BurstLimit (config (start_State system_conf))) = 5"
    by (simp add: start_State_def system_conf_def)
  have e: "limiter_Allow 0 (1 / 2) exhausted_State =
             (False, snd (limiter_Allow 0 (1 / 2) exhausted_State))"
    by (simp add: limiter_Allow_def Allow_def refill_def exhausted_State_def start_State_def)
  have f: "fst (limiter_Allow 0 1 exhausted_State) = True"
    by (simp add: limiter_Allow_def Allow_def refill_def exhausted_State_def start_State_def)
  note th = bucket_starts_full [OF a b, of 0]
  from th e have g: "snd (limiter_Allow 0 (1 / 2) exhausted_State) = exhausted_State"
    by blast
  from th have "fst (requests server_Handler 5 ?r 0 (start_State system_conf)) =
       replicate 5 (http_Error ''Domain not found'' 404) \<and>
     fst (server_Handler ?r 0 (snd (requests server_Handler 5 ?r 0 (start_State system_conf)))) =
       http_Error ''Too Many Requests'' 429"
    by (simp add: c d split_beta StatusTooManyRequests_def)
  with e f g show ?thesis
    by simp
qed

section \<open>Properties of the settings\<close>

lemma server_Handler_allowed:
  assumes "SplitHostPort (RemoteAddr r) = Inr (ip, port)"
    and "getRateLimiter ip s = (limiter, s1)"
    and "limiter_Allow limiter now s1 = (True, s2)"
  shows "server_Handler r now s =
           (if ip \<in> set (Blacklist_IPs (config s))
            then (http_Error ''Forbidden'' StatusForbidden, s2)
            else if ip \<notin> set (Whitelist_IPs (config s))
            then (http_Error ''Unauthorized'' StatusUnauthorized, s2)
            else proxyHandler
                   (r\<lparr>body := MaxBytesReader (body r) (MaxRequestSize (config s))\<rparr>) now s2)"
proof -
  have cfg: "config s2 = config s"
    using assms(2,3) getRateLimiter_config limiter_Allow_config by metis
  show ?thesis
    using assms
    by (simp add: server_Handler_def rateLimitMiddleware_def ipFilterMiddleware_def
        limitRequestSizeMiddleware_def blacklist_loop_iff whitelist_loop_iff cfg)
qed

text \<open>
  C10, the claim as it stands. With a settings file that has no whitelist key and the
  blacklist 203.0.113.10, loadConfig stores the whitelist \<open>[[]]\<close>, and the first
  request of the client 203.0.113.10 passes the rate limiter and is answered 403, not
  401: the blacklist is read before the whitelist.
\<close>

theorem empty_whitelist_counterexample:
  "Whitelist_IPs (config no_whitelist_State) = [[]] \<and>
   fst (server_Handler (get_request ''203.0.113.10:51234'' ''example.com'') 0 no_whitelist_State) =
     http_Error ''Forbidden'' 403 \<and>
   status (fst (server_Handler (get_request ''203.0.113.10:51234'' ''example.com'') 0
                  no_whitelist_State)) \<noteq> Some StatusUnauthorized"
proof -
  let ?r = "get_request ''203.0.113.10:51234'' ''example.com''"
  have a: "SplitHostPort (RemoteAddr ?r) = Inr (''203.0.113.10'', ''51234'')"
    by (simp add: get_request_def SplitHostPort_blocked_client)
  obtain limiter s1 where b: "getRateLimiter ''203.0.113.10'' no_whitelist_State = (limiter, s1)"
    by (cases "getRateLimiter ''203.0.113.10'' no_whitelist_State")
  have c: "limiter_Allow limiter 0 s1 = (True, snd (limiter_Allow limiter 0 s1))"
    using b
    by (auto simp: no_whitelist_State_def loadConfig_def ini_of_def start_State_def
        getRateLimiter_def limiter_Allow_def Allow_def refill_def NewLimiter_def Let_def)
  have d: "Blacklist_IPs (config no_whitelist_State) = [''203.0.113.10'']"
    by (simp add: no_whitelist_State_def loadConfig_def ini_of_def)
  have e: "Whitelist_IPs (config no_whitelist_State) = [[]]"
    by (simp add: no_whitelist_State_def loadConfig_def ini_of_def)
  from server_Handler_allowed [OF a b c] d e show ?thesis
    by (simp add: StatusForbidden_def StatusUnauthorized_def)
qed

text \<open>
  C10, amended. When the key \<^verbatim>\<open>whitelist.ips\<close> is empty or missing, loadConfig stores
  the one-element list of the empty string, and so it does for \<^verbatim>\<open>blacklist.ips\<close>. With
  such a whitelist, every request whose remote address splits to a client IP that is not
  the empty string and that passes the rate limiter is denied: with 403 when the IP is in
  the blacklist, with 401 otherwise.
\<close>

theorem empty_whitelist_denies:
  assumes "ini_Load filePath = Inr cfg"
    and "KeyString cfg ''whitelist'' ''ips'' = []"
  shows "Whitelist_IPs (config (snd (loadConfig ini_Load filePath s0))) = [[]] \<and>
         (KeyString cfg ''blacklist'' ''ips'' = [] \<longrightarrow>
            Blacklist_IPs (config (snd (loadConfig ini_Load filePath s0))) = [[]]) \<and>
         (\<forall>s r now ip port limiter s1 s2.
            config s = config (snd (loadConfig ini_Load filePath s0)) \<and>
            SplitHostPort (RemoteAddr r) = Inr (ip, port) \<and> ip \<noteq> [] \<and>
            getRateLimiter ip s = (limiter, s1) \<and> limiter_Allow limiter now s1 = (True, s2) \<longrightarrow>
            server_Handler r now s =
              (if ip \<in> set (Blacklist_IPs (config s))
               then (http_Error ''Forbidden'' StatusForbidden, s2)
               else (http_Error ''Unauthorized'' StatusUnauthorized, s2)))"
proof -
  have w: "Whitelist_IPs (config (snd (loadConfig ini_Load filePath s0))) = [[]]"
    using assms by (simp add: loadConfig_def)
  have b: "KeyString cfg ''blacklist'' ''ips'' = [] \<longrightarrow>
            Blacklist_IPs (config (snd (loadConfig ini_Load filePath s0))) = [[]]"
    using assms by (simp add: loadConfig_def)
  have "server_Handler r now s =
              (if ip \<in> set (Blacklist_IPs (config s))
               then (http_Error ''Forbidden'' StatusForbidden, s2)
               else (http_Error ''Unauthorized'' StatusUnauthorized, s2))"
    if "config s = config (snd (loadConfig ini_Load filePath s0))"
      and "SplitHostPort (RemoteAddr r) = Inr (ip, port)" and "ip \<noteq> []"
      and "getRateLimiter ip s = (limiter, s1)" and "limiter_Allow limiter now s1 = (True, s2)"
    for s r now ip port limiter s1 s2
    using server_Handler_allowed [OF that(2,4,5)] that(1,3) w by simp
  with w b show ?thesis by blast
qed

theorem empty_whitelist_denies_witness:
  "Whitelist_IPs (config no_whitelist_State) = [[]] \<and>
   fst (server_Handler (get_request ''198.51.100.7:40000'' ''example.com'') 0 no_whitelist_State) =
     http_Error ''Unauthorized'' 401"
proof -
  let ?ini = "ini_of [((''blacklist'', ''ips''), ''203.0.113.10'')]"
  let ?load = "\<lambda>path :: string. (Inr ?ini :: error + IniFile)"
  let ?r = "get_request ''198.51.100.7:40000'' ''example.com''"
  have h1: "?load ''system.conf'' = Inr ?ini" by simp
  have h2: "KeyString ?ini ''whitelist'' ''ips'' = []" by (simp add: ini_of_def)
  have a: "SplitHostPort (RemoteAddr ?r) = Inr (''198.51.100.7'', ''40000'')"
    by (simp add: get_request_def SplitHostPort_unknown_client)
  obtain limiter s1 where b: "getRateLimiter ''198.51.100.7'' no_whitelist_State = (limiter, s1)"
    by (cases "getRateLimiter ''198.51.100.7'' no_whitelist_State")
  have c: "limiter_Allow limiter 0 s1 = (True, snd (limiter_Allow limiter 0 s1))"
    using b
    by (auto simp: no_whitelist_State_def loadConfig_def ini_of_def start_State_def
        getRateLimiter_def limiter_Allow_def Allow_def refill_def NewLimiter_def Let_def)
  have d: "Blacklist_IPs (config no_whitelist_State) = [''203.0.113.10'']"
    by (simp add: no_whitelist_State_def loadConfig_def ini_of_def)
  note th = empty_whitelist_denies
    [of ?load "''system.conf''" ?ini "start_State system_conf", OF h1 h2,
     folded no_whitelist_State_def]
  from th have w: "Whitelist_IPs (config no_whitelist_State) = [[]]"
    by simp
  from th [THEN conjunct2, THEN conjunct2, rule_format,
      where s = no_whitelist_State and r = ?r and ip = "''198.51.100.7''" and now = 0]
    a b c
  have "server_Handler ?r 0 no_whitelist_State =
          (http_Error ''Unauthorized'' StatusUnauthorized, snd (limiter_Allow limiter 0 s1))"
    by (simp add: d)
  with w show ?thesis
    by (simp add: StatusUnauthorized_def)
qed

section \<open>Properties of reload\<close>

lemma loadDomains_loop_keeps:
  "pm domain \<noteq> None \<Longrightarrow> loadDomains_loop url_Parse files pm domain \<noteq> None"
  by (induction files arbitrary: pm) (auto simp: Let_def split: sum.splits)

text \<open>
  C1, on the code: loadDomains writes into the live map and removes no key. After a
  load of the directory with a.com.conf and b.com.conf and a reload of the directory
  with a.com.conf deleted, both without error, a.com is still in proxyMap and
  proxyHandler sends a task for a request to a.com instead of answering 404.
\<close>

theorem loadDomains_keeps_deleted_domain:
  "(case loadDomains example_url_Parse (\<lambda>d. Inr listing_before) ''./list_domain''
           (start_State system_conf) of
      (err1, s1) \<Rightarrow>
        (case loadDomains example_url_Parse (\<lambda>d. Inr listing_after) ''./list_domain'' s1 of
           (err2, s2) \<Rightarrow>
             err1 = None \<and> err2 = None \<and>
             proxyMap s2 ''a.com'' = Some (newReverseProxy example_url_Parse ''http://127.0.0.1:9000'') \<and>
             status (fst (proxyHandler (get_request ''192.168.1.1:40000'' ''a.com'') 0 s2)) = None))"
  by (simp add: loadDomains_def listing_before_def listing_after_def filepath_Ext_def
      TrimSuffix_def HasSuffix_def ini_of_def proxyHandler_def get_request_def)

text \<open>
  C2, on the code: newReverseProxy discards the error of url.Parse. A load of a
  directory with bad.com.conf, whose backend URL \<^verbatim>\<open>://bad\<close> does not parse, ends without
  error and puts bad.com into proxyMap with a nil URL; proxyHandler sends a task for a
  request to bad.com, and the Director of that task fails on the nil pointer.
\<close>

theorem loadDomains_inserts_unparsed_backend:
  "(case loadDomains example_url_Parse (\<lambda>d. Inr listing_bad) ''./list_domain''
           (start_State system_conf) of
      (err, s1) \<Rightarrow>
        err = None \<and> example_url_Parse ''://bad'' = None \<and>
        proxyMap s1 ''bad.com'' = Some \<lparr>target = None\<rparr> \<and>
        (case proxyHandler (get_request ''192.168.1.1:40000'' ''bad.com'') 0 s1 of
           (Submit t, s2) \<Rightarrow> Director (task_proxy t) (task_request t) = None
         | (http_Error msg code, s2) \<Rightarrow> False))"
  by (simp add: loadDomains_def listing_bad_def filepath_Ext_def
      TrimSuffix_def HasSuffix_def ini_of_def proxyHandler_def get_request_def
      newReverseProxy_def example_url_Parse_def Director_def)

section \<open>Properties of forwarding\<close>

text \<open>
  What the Director does when the pointer of its entry is not nil: it sets the scheme
  and the host of the outbound URL and keeps every other field of the request.
\<close>

lemma Director_parsed:
  "target p = Some backend \<Longrightarrow>
   Director p req =
     Some (req\<lparr>url := (url req)\<lparr>Scheme := Scheme backend, url_Host := url_Host backend\<rparr>\<rparr>)"
  by (simp add: Director_def)

text \<open>
  C7, on the code: not every dispatched request has its scheme and host rewritten.
  After a load of the directory with bad.com.conf, whose backend URL \<^verbatim>\<open>://bad\<close> does not
  parse, a request for \<^verbatim>\<open>/a/b?x=1\<close> with Host bad.com from a whitelisted client passes
  the whole pipeline and a task is sent for it; the entry of that task has a nil URL, and
  its Director fails on the nil pointer instead of rewriting the request.
\<close>

theorem pipeline_dispatches_unparsed_backend:
  "(case loadDomains example_url_Parse (\<lambda>d. Inr listing_bad) ''./list_domain''
           (start_State system_conf) of
      (err, s1) \<Rightarrow>
        (case server_Handler (get_request ''192.168.1.1:40000'' ''bad.com'') 0 s1 of
           (Submit t, s2) \<Rightarrow>
             Path (url (task_request t)) = ''/a/b'' \<and> RawQuery (url (task_request t)) = ''x=1'' \<and>
             target (task_proxy t) = None \<and>
             Director (task_proxy t) (task_request t) = None
         | (http_Error msg code, s2) \<Rightarrow> False))"
  by (simp add: loadDomains_def listing_bad_def filepath_Ext_def
      TrimSuffix_def HasSuffix_def ini_of_def proxyHandler_def get_request_def
      newReverseProxy_def example_url_Parse_def Director_def
      server_Handler_def rateLimitMiddleware_def ipFilterMiddleware_def
      limitRequestSizeMiddleware_def SplitHostPort_allowed_client getRateLimiter_def
      limiter_Allow_def Allow_def refill_def NewLimiter_def Let_def start_State_def
      system_conf_def)

section \<open>Properties of the worker pool\<close>

lemma step_shape:
  "step p e = Some p' \<Longrightarrow>
   capacity p' = capacity p \<and> length (workers p') = length (workers p) \<and>
   (length (queue p) \<le> capacity p \<longrightarrow> length (queue p') \<le> capacity p')"
  by (cases e) (auto split: if_splits list.splits)

lemma run_shape:
  "run p es = Some p' \<Longrightarrow> length (queue p) \<le> capacity p \<Longrightarrow>
   capacity p' = capacity p \<and> length (workers p') = length (workers p) \<and>
   length (queue p') \<le> capacity p'"
proof (induction es arbitrary: p)
  case Nil
  then show ?case by simp
next
  case (Cons e es)
  then obtain q where q: "step p e = Some q" and r: "run q es = Some p'"
    by (auto split: option.splits)
  from step_shape [OF q] Cons.prems(2)
  have "capacity q = capacity p" "length (workers q) = length (workers p)"
    "length (queue q) \<le> capacity q" by simp_all
  with Cons.IH [OF r] show ?case by simp
qed

lemma executing_le: "executing p \<le> length (workers p)"
  by (simp add: executing_def)

lemma all_busy: "executing p = length (workers p) \<Longrightarrow> i < length (workers p) \<Longrightarrow> workers p ! i \<noteq> None"
  unfolding executing_def
  by (metis (mono_tags, lifting) filter_id_conv length_filter_less nat_neq_iff nth_mem)

text \<open>
  C9. A send on workerPool whose buffer is full does not happen: the handler waits.
  With room in the buffer the send puts the task at the end of the queue, and a send has
  no failing outcome. From a full buffer, the receive of a worker makes room, after
  which the send happens. When the buffer is full and every worker is inside a task,
  the only step that can happen is the return of a running task. In every state
  reached from initWorkerPool numWorkers, the buffer holds at most numWorkers tasks,
  the workers are the numWorkers started at initialisation, and at most numWorkers
  tasks are being executed.
\<close>

theorem submit_blocks_when_full:
  "(capacity p \<le> length (queue p) \<longrightarrow> step p (Send t) = None) \<and>
   (length (queue p) < capacity p \<longrightarrow> step p (Send t) = Some (p\<lparr>queue := queue p @ [t]\<rparr>)) \<and>
   (\<forall>i p'. length (queue p) = capacity p \<and> step p (Receive i) = Some p' \<longrightarrow>
      step p' (Send t) = Some (p'\<lparr>queue := queue p' @ [t]\<rparr>)) \<and>
   (\<forall>e p'. length (queue p) = capacity p \<and> executing p = length (workers p) \<and>
      step p e = Some p' \<longrightarrow> (\<exists>i. e = Finish i)) \<and>
   (\<forall>es p'. run (initWorkerPool numWorkers) es = Some p' \<longrightarrow>
      capacity p' = numWorkers \<and> length (workers p') = numWorkers \<and>
      length (queue p') \<le> numWorkers \<and> executing p' \<le> numWorkers)"
proof -
  have recv: "step p' (Send t) = Some (p'\<lparr>queue := queue p' @ [t]\<rparr>)"
    if "length (queue p) = capacity p" and "step p (Receive i) = Some p'" for i p'
    using that by (auto split: if_splits list.splits)
  have sat: "\<exists>i. e = Finish i"
    if "length (queue p) = capacity p" and "executing p = length (workers p)"
      and "step p e = Some p'" for e p'
  proof (cases e)
    case (Send x)
    with that show ?thesis by simp
  next
    case (Receive i)
    with that all_busy [of p i] show ?thesis by (auto split: if_splits)
  next
    case (Finish i)
    then show ?thesis by simp
  qed
  have reach: "capacity p' = numWorkers \<and> length (workers p') = numWorkers \<and>
      length (queue p') \<le> numWorkers \<and> executing p' \<le> numWorkers"
    if "run (initWorkerPool numWorkers) es = Some p'" for es p'
    using run_shape [OF that] executing_le [of p'] by (simp add: initWorkerPool_def)
  have full: "capacity p \<le> length (queue p) \<longrightarrow> step p (Send t) = None"
    by simp
  have room: "length (queue p) < capacity p \<longrightarrow>
      step p (Send t) = Some (p\<lparr>queue := queue p @ [t]\<rparr>)"
    by simp
  from full room recv sat reach show ?thesis
    by blast
qed

theorem submit_blocks_when_full_witness:
  "step \<lparr>capacity = 1, queue = [example_Task], workers = [None]\<rparr> (Send example_Task) = None \<and>
   run (initWorkerPool 1) [Send example_Task, Send example_Task] = None \<and>
   run (initWorkerPool 1) [Send example_Task, Receive 0, Send example_Task] =
     Some \<lparr>capacity = 1, queue = [example_Task], workers = [Some example_Task]\<rparr> \<and>
   executing \<lparr>capacity = 1, queue = [example_Task], workers = [Some example_Task]\<rparr> \<le> 1"
  using submit_blocks_when_full
    [of "\<lparr>capacity = 1, queue = [example_Task], workers = [None]\<rparr>" example_Task 1]
  by (simp add: initWorkerPool_def executing_def)

end
